theory Spec2Isabelle
  imports Complex_Main "HOL-Library.Sublist" "HOL-Library.Word"
begin

unbundle bit_operations_syntax

section \<open>JavaScript values\<close>

text \<open>
  A thrown value. \<open>fetch\<close> rejects with a \<open>TypeError\<close> on a network failure,
  \<open>response.json()\<close> rejects with a \<open>SyntaxError\<close> on a malformed body, and the client
  itself only ever throws \<open>new Error(message)\<close>.
\<close>

datatype error = Error string | TypeError string | SyntaxError string

fun message :: "error \<Rightarrow> string" where
  "message (Error m) = m"
| "message (TypeError m) = m"
| "message (SyntaxError m) = m"

text \<open>
  A plain object with string keys: an association list in insertion order without
  duplicate keys. Assigning an existing key keeps its position and replaces its value;
  the spread \<open>{...target, ...src}\<close> assigns the properties of \<open>src\<close> in order.
\<close>

type_synonym 'v obj = "(string \<times> 'v) list"

fun set_prop :: "string \<Rightarrow> 'v \<Rightarrow> 'v obj \<Rightarrow> 'v obj" where
  "set_prop k v [] = [(k, v)]"
| "set_prop k v (p # ps) = (if fst p = k then (k, v) # ps else p # set_prop k v ps)"

definition spread :: "'v obj \<Rightarrow> 'v obj \<Rightarrow> 'v obj" where
  "spread target src = fold (\<lambda>(k, v). set_prop k v) src target"

definition get_prop :: "'v obj \<Rightarrow> string \<Rightarrow> 'v option" where
  "get_prop ob k = map_of ob k"

text \<open>
  The values that occur in a \<open>RequestInit\<close>: strings, a header object and a binary
  body. Of a \<open>File\<close> the client reads the declared content type only.
\<close>

record File =
  file_type :: string
  file_bytes :: string

datatype jsval = Str string | Obj "string obj" | Blob File

text \<open>Template literals print numbers in decimal.\<close>

definition digit :: "nat \<Rightarrow> char" where
  "digit d = ''0123456789'' ! d"

fun show_nat :: "nat \<Rightarrow> string" where
  "show_nat n = (if n < 10 then [digit n] else show_nat (n div 10) @ [digit (n mod 10)])"

declare show_nat.simps [simp del]

definition show_int :: "int \<Rightarrow> string" where
  "show_int i = (if i < 0 then CHR ''-'' # show_nat (nat (- i)) else show_nat (nat i))"

text \<open>
  A value of the type \<open>number\<close> where the client compares it or tests its truth: a
  finite number, one of the two infinities, or \<open>NaN\<close>. \<open>x <= 0\<close> is false for \<open>NaN\<close>,
  and \<open>!x\<close> is true for zero and for \<open>NaN\<close>.
\<close>

datatype number = Num real | Infinity | NegInfinity | NaN

fun le_zero :: "number \<Rightarrow> bool" where
  "le_zero (Num r) \<longleftrightarrow> r \<le> 0"
| "le_zero Infinity \<longleftrightarrow> False"
| "le_zero NegInfinity \<longleftrightarrow> True"
| "le_zero NaN \<longleftrightarrow> False"

section \<open>types.ts\<close>

record PixverseConfig =
  headers :: "string obj option"
  token :: "string option"

record 'a PixverseResponse =
  ErrCode :: int
  ErrMsg :: string
  Resp :: 'a

record UploadTokenResponse =
  Ak :: string
  Sk :: string
  Token :: string

section \<open>The environment of a call\<close>

text \<open>
  What \<open>fetch\<close> resolves with: the status line and the two readings of the body the
  client uses (\<open>json()\<close> decoded as an envelope, \<open>text()\<close>), either of which may reject.
  The error code of an envelope is an integer.
\<close>

record 'a Response =
  status :: nat
  statusText :: string
  json :: "error + 'a PixverseResponse"
  text_body :: "error + string"

definition ok :: "'a Response \<Rightarrow> bool" where
  "ok response \<longleftrightarrow> 200 \<le> status response \<and> status response \<le> 299"

text \<open>
  The effects of the client, in the order they happen. The state threaded through every
  operation is the trace of effects so far.
\<close>

datatype event =
    RandomUUID
  | DateNow
  | ConsoleLog "string list"
  | is_Fetch: Fetch (url: string) (init: "jsval obj")
  | SetTimeout nat

text \<open>
  The outside world: the \<open>n\<close>-th value drawn from \<open>crypto.randomUUID()\<close>, the \<open>n\<close>-th
  reading of \<open>new Date().toUTCString()\<close>, the outcome of the \<open>n\<close>-th call of \<open>fetch\<close>
  (\<open>Inl\<close> when the promise rejects). What the servers make of a request is part of
  the outside world, so the outcome of a call is given by its position among the calls.
\<close>

record 'a env =
  uuid_src :: "nat \<Rightarrow> string"
  date_src :: "nat \<Rightarrow> string"
  fetch_src :: "nat \<Rightarrow> error + 'a Response"

definition count :: "(event \<Rightarrow> bool) \<Rightarrow> event list \<Rightarrow> nat" where
  "count P s = length (filter P s)"

definition randomUUID :: "'a env \<Rightarrow> event list \<Rightarrow> string \<times> event list" where
  "randomUUID env s = (uuid_src env (count (\<lambda>e. e = RandomUUID) s), s @ [RandomUUID])"

definition toUTCString :: "'a env \<Rightarrow> event list \<Rightarrow> string \<times> event list" where
  "toUTCString env s = (date_src env (count (\<lambda>e. e = DateNow) s), s @ [DateNow])"

definition fetch ::
  "'a env \<Rightarrow> string \<Rightarrow> jsval obj \<Rightarrow> event list \<Rightarrow> (error + 'a Response) \<times> event list" where
  "fetch env u i s = (fetch_src env (count is_Fetch s), s @ [Fetch u i])"

section \<open>The library function behind the signature\<close>

text \<open>
  Modelled from the spec: \<open>crypto.createHmac('sha1', key).update(data).digest('base64')\<close>
  is a function of the Node.js library, whose code is not part of the repository. The
  spec names it: HMAC-SHA1 with the digest in base64. It is written here after FIPS
  180-4 (SHA-1), RFC 2104 (HMAC) and RFC 4648 (base64), on 32-bit words as integers
  with the wrap-around written out as a mask. A string stands for its bytes.
\<close>

definition mask32 :: "int \<Rightarrow> int" where
  "mask32 x = x AND 0xFFFFFFFF"

definition rotl :: "nat \<Rightarrow> int \<Rightarrow> int" where
  "rotl n x = mask32 (push_bit n x) OR drop_bit (32 - n) x"

fun be32 :: "int list \<Rightarrow> int" where
  "be32 [b0, b1, b2, b3] = push_bit 24 b0 OR push_bit 16 b1 OR push_bit 8 b2 OR b3"
| "be32 bs = 0"

definition bytes32 :: "int \<Rightarrow> int list" where
  "bytes32 w =
     [drop_bit 24 w AND 0xFF, drop_bit 16 w AND 0xFF, drop_bit 8 w AND 0xFF, w AND 0xFF]"

text \<open>The first \<open>k\<close> pieces of length \<open>n\<close>.\<close>

fun chunks :: "nat \<Rightarrow> nat \<Rightarrow> 'a list \<Rightarrow> 'a list list" where
  "chunks 0 n xs = []"
| "chunks (Suc k) n xs = take n xs # chunks k n (drop n xs)"

text \<open>
  Padding: the bit \<open>1\<close>, zeros up to 56 modulo 64 bytes, and the length in bits as a
  64-bit number, of which the upper half is zero for every message below 512 MiB.
\<close>

definition sha1_pad :: "int list \<Rightarrow> int list" where
  "sha1_pad m =
     m @ [0x80] @ replicate ((119 - length m mod 64) mod 64) 0
       @ [0, 0, 0, 0] @ bytes32 (8 * int (length m))"

text \<open>The message schedule, most recent word first.\<close>

fun schedule :: "nat \<Rightarrow> int list \<Rightarrow> int list" where
  "schedule 0 ws = ws"
| "schedule (Suc n) ws =
     schedule n (rotl 1 (ws ! 2 XOR ws ! 7 XOR ws ! 13 XOR ws ! 15) # ws)"

definition Ch :: "int \<Rightarrow> int \<Rightarrow> int \<Rightarrow> int" where
  "Ch b c d = (b AND c) OR (NOT b AND d)"

definition Parity :: "int \<Rightarrow> int \<Rightarrow> int \<Rightarrow> int" where
  "Parity b c d = b XOR c XOR d"

definition Maj :: "int \<Rightarrow> int \<Rightarrow> int \<Rightarrow> int" where
  "Maj b c d = (b AND c) OR (b AND d) OR (c AND d)"

type_synonym sha1_state = "int \<times> int \<times> int \<times> int \<times> int"

fun rounds ::
  "(int \<Rightarrow> int \<Rightarrow> int \<Rightarrow> int) \<Rightarrow> int \<Rightarrow> int list \<Rightarrow> sha1_state \<Rightarrow> sha1_state" where
  "rounds f k [] s = s"
| "rounds f k (w # ws) (a, b, c, d, e) =
     rounds f k ws (mask32 (rotl 5 a + f b c d + e + k + w), a, rotl 30 b, c, d)"

definition compress :: "sha1_state \<Rightarrow> int list \<Rightarrow> sha1_state" where
  "compress h blk =
     (let ws = rev (schedule 64 (rev (map be32 (chunks 16 4 blk)))) in
      case h of (h0, h1, h2, h3, h4) \<Rightarrow>
      case rounds Parity 0xCA62C1D6 (drop 60 ws)
             (rounds Maj 0x8F1BBCDC (take 20 (drop 40 ws))
                (rounds Parity 0x6ED9EBA1 (take 20 (drop 20 ws))
                   (rounds Ch 0x5A827999 (take 20 ws) h))) of
        (a, b, c, d, e) \<Rightarrow>
          (mask32 (h0 + a), mask32 (h1 + b), mask32 (h2 + c), mask32 (h3 + d),
           mask32 (h4 + e)))"

definition sha1 :: "int list \<Rightarrow> int list" where
  "sha1 m =
     (case foldl compress (0x67452301, 0xEFCDAB89, 0x98BADCFE, 0x10325476, 0xC3D2E1F0)
             (chunks (length (sha1_pad m) div 64) 64 (sha1_pad m)) of
        (a, b, c, d, e) \<Rightarrow> concat (map bytes32 [a, b, c, d, e]))"

definition hmac_sha1 :: "int list \<Rightarrow> int list \<Rightarrow> int list" where
  "hmac_sha1 key m =
     (let k0 = (if length key > 64 then sha1 key else key);
          k = k0 @ replicate (64 - length k0) 0
      in sha1 (map (\<lambda>b. b XOR 0x5c) k @ sha1 (map (\<lambda>b. b XOR 0x36) k @ m)))"

definition base64_alphabet :: string where
  "base64_alphabet = ''ABCDEFGHIJKLMNOPQRSTUVWXYZabcdefghijklmnopqrstuvwxyz0123456789+/''"

definition base64_digit :: "int \<Rightarrow> char" where
  "base64_digit i = base64_alphabet ! nat i"

fun base64 :: "int list \<Rightarrow> string" where
  "base64 (a # b # c # bs) =
     [base64_digit (drop_bit 2 a),
      base64_digit (push_bit 4 (a AND 3) OR drop_bit 4 b),
      base64_digit (push_bit 2 (b AND 15) OR drop_bit 6 c),
      base64_digit (c AND 63)] @ base64 bs"
| "base64 [a, b] =
     [base64_digit (drop_bit 2 a),
      base64_digit (push_bit 4 (a AND 3) OR drop_bit 4 b),
      base64_digit (push_bit 2 (b AND 15)),
      CHR ''='']"
| "base64 [a] =
     [base64_digit (drop_bit 2 a), base64_digit (push_bit 4 (a AND 3)), CHR ''='', CHR ''='']"
| "base64 [] = []"

definition bytes_of :: "string \<Rightarrow> int list" where
  "bytes_of s = map of_char s"

definition hmac_sha1_base64 :: "string \<Rightarrow> string \<Rightarrow> string" where
  "hmac_sha1_base64 key data = base64 (hmac_sha1 (bytes_of key) (bytes_of data))"

section \<open>client.ts: the request executor\<close>

definition baseUrl :: string where
  "baseUrl = ''https://app-api.pixverse.ai''"

text \<open>
  The \<open>headers\<close> object literal of \<open>request\<close>, lines 34 to 50. A client without a
  token sends the header \<open>Token\<close> with the text \<open>undefined\<close>.
\<close>

definition request_headers :: "PixverseConfig \<Rightarrow> string \<Rightarrow> string obj" where
  "request_headers config uuid =
     spread
       [(''Content-Type'', ''application/json''),
        (''User-Agent'',
         ''Mozilla/5.0 (Macintosh; Intel Mac OS X 10.15; rv:136.0) Gecko/20100101 Firefox/136.0''),
        (''X-Platform'', ''Web''),
        (''Referer'', ''https://app.pixverse.ai/''),
        (''Origin'', ''https://app.pixverse.ai''),
        (''Sec-Fetch-Dest'', ''empty''),
        (''Sec-Fetch-Mode'', ''cors''),
        (''Sec-Fetch-Site'', ''same-site''),
        (''Sec-GPC'', ''1''),
        (''Accept'', ''application/json, text/plain, */*''),
        (''Accept-Language'', ''en-US''),
        (''Ai-Trace-Id'', uuid),
        (''Token'', (case token config of None \<Rightarrow> ''undefined'' | Some t \<Rightarrow> t))]
       (case headers config of None \<Rightarrow> [] | Some h \<Rightarrow> h)"

text \<open>The second argument of \<open>fetch\<close>, lines 53 to 58.\<close>

definition request_init :: "jsval obj \<Rightarrow> string obj \<Rightarrow> jsval obj" where
  "request_init options hdrs =
     spread options
       [(''headers'', Obj hdrs), (''credentials'', Str ''omit''), (''mode'', Str ''cors'')]"

text \<open>The body of the \<open>try\<close> block, lines 32 to 70: one attempt.\<close>

definition attempt ::
  "'a env \<Rightarrow> PixverseConfig \<Rightarrow> string \<Rightarrow> jsval obj \<Rightarrow> event list
     \<Rightarrow> (error + 'a PixverseResponse) \<times> event list" where
  "attempt env config endpoint options s =
     (let (uuid, s1) = randomUUID env s;
          (r, s2) = fetch env (baseUrl @ endpoint)
                      (request_init options (request_headers config uuid)) s1
      in case r of
           Inl e \<Rightarrow> (Inl e, s2)
         | Inr response \<Rightarrow>
             if \<not> ok response
             then (Inl (Error (''HTTP error! status: '' @ show_nat (status response))), s2)
             else (case json response of
                     Inl e \<Rightarrow> (Inl e, s2)
                   | Inr data \<Rightarrow>
                       if ErrCode data \<noteq> 0
                       then (Inl (Error (''API error: '' @ ErrMsg data @ '' (Code: ''
                                          @ show_int (ErrCode data) @ '')'')), s2)
                       else (Inr data, s2)))"

text \<open>
  \<open>request\<close> with its \<open>catch\<close> block, lines 71 to 77: wait one second and call
  itself with one retry less while retries are left, rethrow otherwise.
\<close>

fun request ::
  "'a env \<Rightarrow> PixverseConfig \<Rightarrow> string \<Rightarrow> jsval obj \<Rightarrow> nat \<Rightarrow> event list
     \<Rightarrow> (error + 'a PixverseResponse) \<times> event list" where
  "request env config endpoint options retries s =
     (case attempt env config endpoint options s of
        (Inr data, s') \<Rightarrow> (Inr data, s')
      | (Inl e, s') \<Rightarrow>
          if retries > 0
          then request env config endpoint options (retries - 1) (s' @ [SetTimeout 1000])
          else (Inl e, s'))"

declare request.simps [simp del]

text \<open>The default value of the parameter \<open>retries\<close>.\<close>

definition default_retries :: nat where
  "default_retries = 3"

section \<open>client.ts: the signed upload\<close>

text \<open>\<open>fileName.split('.')\<close>: the pieces between the separators, never an empty array.\<close>

primrec split_str :: "char \<Rightarrow> string \<Rightarrow> string list" where
  "split_str sep [] = [[]]"
| "split_str sep (c # cs) =
     (if c = sep then [] # split_str sep cs
      else (c # hd (split_str sep cs)) # tl (split_str sep cs))"

fun join :: "string \<Rightarrow> string list \<Rightarrow> string" where
  "join sep [] = []"
| "join sep [x] = x"
| "join sep (x # y # ys) = x @ sep @ join sep (y # ys)"

definition toLowerCase_char :: "char \<Rightarrow> char" where
  "toLowerCase_char c =
     (case map_of (zip ''ABCDEFGHIJKLMNOPQRSTUVWXYZ'' ''abcdefghijklmnopqrstuvwxyz'') c of
        None \<Rightarrow> c
      | Some l \<Rightarrow> l)"

definition toLowerCase :: "string \<Rightarrow> string" where
  "toLowerCase s = map toLowerCase_char s"

text \<open>
  \<open>a.localeCompare(b)\<close> on the header names that are sorted here: they are lower-case
  ASCII with a common prefix and differ first at a letter, where the collation order is
  the order of the character codes.
\<close>

fun localeCompare :: "string \<Rightarrow> string \<Rightarrow> int" where
  "localeCompare [] [] = 0"
| "localeCompare [] (b # bs) = - 1"
| "localeCompare (a # as) [] = 1"
| "localeCompare (a # as) (b # bs) =
     (if (of_char a :: nat) < of_char b then - 1
      else if (of_char b :: nat) < of_char a then 1
      else localeCompare as bs)"

text \<open>\<open>Array.prototype.sort\<close> with a comparator is stable: insertion from the right.\<close>

fun insert_sorted :: "('a \<Rightarrow> 'a \<Rightarrow> int) \<Rightarrow> 'a \<Rightarrow> 'a list \<Rightarrow> 'a list" where
  "insert_sorted cmp x [] = [x]"
| "insert_sorted cmp x (y # ys) =
     (if cmp x y \<le> 0 then x # y # ys else y # insert_sorted cmp x ys)"

definition sort_by :: "('a \<Rightarrow> 'a \<Rightarrow> int) \<Rightarrow> 'a list \<Rightarrow> 'a list" where
  "sort_by cmp xs = foldr (insert_sorted cmp) xs []"

definition nl :: string where
  "nl = [CHR 0x0A]"

record OSSUploadResponse =
  name :: string
  path :: string
  type :: nat

type_synonym MediaUploadRequest = OSSUploadResponse

text \<open>Lines 95 to 97.\<close>

definition fileExt :: "string \<Rightarrow> string" where
  "fileExt fileName =
     (if CHR ''.'' \<in> set fileName then ''.'' @ last (split_str (CHR ''.'') fileName) else [])"

text \<open>Lines 110 to 115.\<close>

definition ossHeaders :: "string \<Rightarrow> UploadTokenResponse \<Rightarrow> string obj" where
  "ossHeaders date uploadToken =
     [(''x-oss-date'', date),
      (''x-oss-security-token'', Token uploadToken),
      (''x-oss-forbid-overwrite'', ''true''),
      (''x-oss-user-agent'', ''aliyun-sdk-js/6.22.0 Firefox 136.0 on OS X 10.15'')]"

text \<open>Lines 118 to 122.\<close>

definition canonicalizedOSSHeaders :: "string obj \<Rightarrow> string" where
  "canonicalizedOSSHeaders hs =
     join nl (map (\<lambda>(key, value). toLowerCase key @ '':'' @ value)
                (sort_by (\<lambda>(a, _) (b, _). localeCompare a b) hs)) @ nl"

text \<open>Line 125.\<close>

definition canonicalizedResource :: "string \<Rightarrow> string" where
  "canonicalizedResource p = ''/pixverse-fe-upload/'' @ p"

text \<open>Lines 128 to 134.\<close>

definition stringToSign :: "string \<Rightarrow> string \<Rightarrow> string \<Rightarrow> string obj \<Rightarrow> string \<Rightarrow> string" where
  "stringToSign method contentType date hs p =
     join nl [method, [], contentType, date,
              canonicalizedOSSHeaders hs @ canonicalizedResource p]"

text \<open>Lines 144 to 153.\<close>

definition upload_headers :: "File \<Rightarrow> string \<Rightarrow> UploadTokenResponse \<Rightarrow> string \<Rightarrow> string obj" where
  "upload_headers file date uploadToken signature =
     [(''Accept'', ''*/*''),
      (''x-oss-date'', date),
      (''x-oss-user-agent'', ''aliyun-sdk-js/6.22.0 Firefox 136.0 on OS X 10.15''),
      (''x-oss-security-token'', Token uploadToken),
      (''Access-Control-Allow-Origin'', ''*''),
      (''x-oss-forbid-overwrite'', ''true''),
      (''Content-Type'', file_type file),
      (''authorization'', ''OSS '' @ Ak uploadToken @ '':'' @ signature)]"

text \<open>
  \<open>uploadToOSS\<close>, lines 90 to 180. The \<open>catch\<close> block rethrows, so every error of the
  \<open>try\<close> block is the result.
\<close>

definition uploadToOSS ::
  "'a env \<Rightarrow> File \<Rightarrow> string \<Rightarrow> UploadTokenResponse \<Rightarrow> event list
     \<Rightarrow> (error + OSSUploadResponse) \<times> event list" where
  "uploadToOSS env file fileName uploadToken s =
     (let (uuid, s1) = randomUUID env s;
          obj_name = uuid @ fileExt fileName;
          obj_path = ''upload/'' @ obj_name;
          s2 = s1 @ [ConsoleLog [''Uploading file to OSS...'']];
          u = ''https://pixverse-fe-upload.oss-accelerate.aliyuncs.com/'' @ obj_path;
          (date, s3) = toUTCString env s2;
          method = ''PUT'';
          contentType = file_type file;
          signature = hmac_sha1_base64 (Sk uploadToken)
                        (stringToSign method contentType date
                           (ossHeaders date uploadToken) obj_path);
          s4 = s3 @ [ConsoleLog [''Signature:'', signature, file_type file]];
          (r, s5) = fetch env u
                      [(''method'', Str ''PUT''),
                       (''headers'', Obj (upload_headers file date uploadToken signature)),
                       (''body'', Blob file),
                       (''credentials'', Str ''include''),
                       (''mode'', Str ''cors'')] s4
      in case r of
           Inl e \<Rightarrow> (Inl e, s5)
         | Inr response \<Rightarrow>
             if \<not> ok response
             then (case text_body response of
                     Inl e \<Rightarrow> (Inl e, s5)
                   | Inr errorText \<Rightarrow>
                       (Inl (Error (''Failed to upload file ('' @ show_nat (status response)
                                     @ ''): ''
                                     @ (if errorText \<noteq> [] then errorText
                                        else statusText response))), s5))
             else (Inr \<lparr>name = obj_name, path = obj_path,
                        type = (if file_type file = ''video/mp4'' then 1 else 2)\<rparr>, s5))"

section \<open>client.ts: the convenience methods\<close>

text \<open>
  What the caller of a method sees: the call throws, or it returns a promise, which is
  rejected (\<open>Inl\<close>) or fulfilled (\<open>Inr\<close>). Every method of the client is declared
  \<open>async\<close>, so a call never throws: what the body throws rejects the promise of the
  call. The definitions of the methods below give the settlement of that promise and
  the effects of the body; \<open>async_call\<close> gives the call as its caller sees it.
\<close>

datatype 'a completion = Thrown error | Promise "error + 'a"

definition async_call ::
  "(event list \<Rightarrow> (error + 'a) \<times> event list) \<Rightarrow> event list
     \<Rightarrow> 'a completion \<times> event list" where
  "async_call body s = (case body s of (r, s') \<Rightarrow> (Promise r, s'))"

record LipSyncRequest =
  customer_video_path :: "string option"
  lip_sync_tts_content :: "string option"
  lip_sync_tts_speaker_id :: string
  model :: string
  customer_video_url :: string
  customer_video_duration :: number
  customer_video_last_frame_url :: string
  credit_change :: number

record LastVideoFrameRequest =
  video_path :: "string option"
  duration :: number

record VideoDetailsRequest =
  video_id :: "number option"
  platform :: "string option"

text \<open>
  \<open>!x\<close> on a string field (\<open>None\<close> is an absent field) and on a numeric field.
\<close>

definition not_str :: "string option \<Rightarrow> bool" where
  "not_str x \<longleftrightarrow> x = None \<or> x = Some []"

definition not_num :: "number option \<Rightarrow> bool" where
  "not_num x \<longleftrightarrow> x = None \<or> x = Some (Num 0) \<or> x = Some NaN"

definition getUploadToken ::
  "'a env \<Rightarrow> PixverseConfig \<Rightarrow> event list \<Rightarrow> (error + 'a) \<times> event list" where
  "getUploadToken env config s =
     (case request env config ''/creative_platform/getUploadToken''
             [(''method'', Str ''POST'')] default_retries s of
        (Inl e, s') \<Rightarrow> (Inl e, s')
      | (Inr response, s') \<Rightarrow> (Inr (Resp response), s'))"

text \<open>
  \<open>JSON.stringify\<close> is a parameter of the methods that send a body.
\<close>

definition uploadMedia ::
  "'a env \<Rightarrow> PixverseConfig \<Rightarrow> (MediaUploadRequest \<Rightarrow> string) \<Rightarrow> MediaUploadRequest
     \<Rightarrow> event list \<Rightarrow> (error + 'a) \<times> event list" where
  "uploadMedia env config stringify uploadRequest s =
     (case request env config ''/creative_platform/media/upload''
             [(''method'', Str ''POST''), (''body'', Str (stringify uploadRequest))]
             default_retries s of
        (Inl e, s') \<Rightarrow> (Inl e, s')
      | (Inr response, s') \<Rightarrow> (Inr (Resp response), s'))"

definition createLipSync ::
  "'a env \<Rightarrow> PixverseConfig \<Rightarrow> (LipSyncRequest \<Rightarrow> string) \<Rightarrow> LipSyncRequest
     \<Rightarrow> event list \<Rightarrow> (error + 'a PixverseResponse) \<times> event list" where
  "createLipSync env config stringify req s =
     (if not_str (customer_video_path req) \<or> not_str (lip_sync_tts_content req)
      then (Inl (Error
        ''Missing required fields: customer_video_path and lip_sync_tts_content are required''), s)
      else if le_zero (customer_video_duration req)
      then (Inl (Error ''Invalid video duration: must be greater than 0''), s)
      else request env config ''/creative_platform/video/lip_sync''
             [(''method'', Str ''POST''),
              (''body'', Str (stringify req)),
              (''headers'', Obj [(''Refresh'', ''credit'')])]
             default_retries s)"

definition getLastVideoFrame ::
  "'a env \<Rightarrow> PixverseConfig \<Rightarrow> (LastVideoFrameRequest \<Rightarrow> string) \<Rightarrow> LastVideoFrameRequest
     \<Rightarrow> event list \<Rightarrow> (error + 'a PixverseResponse) \<times> event list" where
  "getLastVideoFrame env config stringify req s =
     (if not_str (video_path req) \<or> le_zero (duration req)
      then (Inl (Error
        ''Missing required fields: video_path and duration must be provided and duration must be greater than 0''), s)
      else request env config ''/creative_platform/video/frame/last''
             [(''method'', Str ''POST''), (''body'', Str (stringify req))]
             default_retries s)"

definition getVideoDetails ::
  "'a env \<Rightarrow> PixverseConfig \<Rightarrow> (VideoDetailsRequest \<Rightarrow> string) \<Rightarrow> VideoDetailsRequest
     \<Rightarrow> event list \<Rightarrow> (error + 'a PixverseResponse) \<times> event list" where
  "getVideoDetails env config stringify req s =
     (if not_num (video_id req)
      then (Inl (Error ''Missing required field: video_id must be provided''), s)
      else request env config ''/creative_platform/video/list/detail''
             [(''method'', Str ''POST''), (''body'', Str (stringify req))]
             default_retries s)"

section \<open>Notions of the specification\<close>

text \<open>
  An attempt succeeds when the transport status is in the success range and the decoded
  envelope carries the error code zero.
\<close>

definition succeeds :: "(error + 'a Response) \<Rightarrow> bool" where
  "succeeds outcome \<longleftrightarrow>
     (case outcome of
        Inl e \<Rightarrow> False
      | Inr response \<Rightarrow>
          ok response \<and>
          (case json response of Inl e \<Rightarrow> False | Inr data \<Rightarrow> ErrCode data = 0))"

text \<open>
  The error of a failing attempt: the rejection of \<open>fetch\<close> or of \<open>json()\<close> itself, the
  description of the status, or the description of the envelope.
\<close>

fun attempt_error :: "(error + 'a Response) \<Rightarrow> error" where
  "attempt_error (Inl e) = e"
| "attempt_error (Inr response) =
     (if \<not> ok response
      then Error (''HTTP error! status: '' @ show_nat (status response))
      else (case json response of
              Inl e \<Rightarrow> e
            | Inr data \<Rightarrow>
                Error (''API error: '' @ ErrMsg data @ '' (Code: ''
                        @ show_int (ErrCode data) @ '')'')))"

text \<open>
  The transport succeeded and the decoded envelope carries a nonzero error code.
\<close>

definition application_error :: "(error + 'a Response) \<Rightarrow> bool" where
  "application_error outcome \<longleftrightarrow>
     (case outcome of
        Inl e \<Rightarrow> False
      | Inr response \<Rightarrow>
          ok response \<and>
          (case json response of Inl e \<Rightarrow> False | Inr data \<Rightarrow> ErrCode data \<noteq> 0))"

text \<open>
  The effects of one attempt that draws the \<open>i\<close>-th trace identifier, and of \<open>n + 1\<close>
  attempts in a row with the one-second timer between them.
\<close>

definition attempt_events ::
  "'a env \<Rightarrow> PixverseConfig \<Rightarrow> string \<Rightarrow> jsval obj \<Rightarrow> nat \<Rightarrow> event list" where
  "attempt_events env config endpoint options i =
     [RandomUUID,
      Fetch (baseUrl @ endpoint)
        (request_init options (request_headers config (uuid_src env i)))]"

fun attempts_trace ::
  "'a env \<Rightarrow> PixverseConfig \<Rightarrow> string \<Rightarrow> jsval obj \<Rightarrow> nat \<Rightarrow> nat \<Rightarrow> event list" where
  "attempts_trace env config endpoint options i 0 =
     attempt_events env config endpoint options i"
| "attempts_trace env config endpoint options i (Suc n) =
     attempt_events env config endpoint options i @ [SetTimeout 1000]
       @ attempts_trace env config endpoint options (Suc i) n"

text \<open>The header object a \<open>fetch\<close> was called with.\<close>

fun sent_headers :: "event \<Rightarrow> string obj" where
  "sent_headers (Fetch u i) = (case get_prop i ''headers'' of Some (Obj h) \<Rightarrow> h | _ \<Rightarrow> [])"
| "sent_headers e = []"

text \<open>
  The canonical string as the specification words it: the header block holds the lines
  of the security token, the forbid-overwrite flag and the client identifier.
\<close>

definition stringToSign_spec ::
  "string \<Rightarrow> string \<Rightarrow> string \<Rightarrow> UploadTokenResponse \<Rightarrow> string \<Rightarrow> string" where
  "stringToSign_spec method contentType date uploadToken p =
     join nl [method, [], contentType, date,
              ''x-oss-forbid-overwrite:true'' @ nl
              @ ''x-oss-security-token:'' @ Token uploadToken @ nl
              @ ''x-oss-user-agent:aliyun-sdk-js/6.22.0 Firefox 136.0 on OS X 10.15'' @ nl
              @ ''/pixverse-fe-upload/'' @ p]"

text \<open>The signatures a trace has logged.\<close>

fun logged_signature :: "event \<Rightarrow> string option" where
  "logged_signature (ConsoleLog [l, sig, t]) = (if l = ''Signature:'' then Some sig else None)"
| "logged_signature e = None"

definition signatures :: "event list \<Rightarrow> string list" where
  "signatures s = List.map_filter logged_signature s"

section \<open>Concrete calls\<close>

definition config0 :: PixverseConfig where
  "config0 = \<lparr>headers = None, token = Some ''token-123''\<rparr>"

definition response0 :: "nat \<Rightarrow> string \<Rightarrow> int \<Rightarrow> string \<Rightarrow> string \<Rightarrow> string Response" where
  "response0 st stText code msg payload =
     \<lparr>status = st, statusText = stText,
      json = Inr \<lparr>ErrCode = code, ErrMsg = msg, Resp = payload\<rparr>,
      text_body = Inr []\<rparr>"

text \<open>
  A network that answers 500, then 200 with the error code 400017, then 503, and is
  unreachable from then on.
\<close>

definition flaky_env :: "string env" where
  "flaky_env =
     \<lparr>uuid_src = (\<lambda>n. ''trace-'' @ show_nat n),
      date_src = (\<lambda>n. ''Mon, 02 Nov 2026 04:27:00 GMT''),
      fetch_src = (\<lambda>n.
        if n = 0 then Inr (response0 500 ''Internal Server Error'' 0 [] [])
        else if n = 1 then Inr (response0 200 ''OK'' 400017 ''invalid param'' [])
        else if n = 2 then Inr (response0 503 ''Service Unavailable'' 0 [] [])
        else Inl (TypeError ''fetch failed''))\<rparr>"

text \<open>
  A network that is unreachable, then answers 502, and 200 with the code 0 from then on.
\<close>

definition recovering_env :: "string env" where
  "recovering_env =
     \<lparr>uuid_src = (\<lambda>n. ''trace-'' @ show_nat n),
      date_src = (\<lambda>n. ''Mon, 02 Nov 2026 04:27:00 GMT''),
      fetch_src = (\<lambda>n.
        if n = 0 then Inl (TypeError ''fetch failed'')
        else if n = 1 then Inr (response0 502 ''Bad Gateway'' 0 [] [])
        else Inr (response0 200 ''OK'' 0 ''success'' ''payload''))\<rparr>"

text \<open>A network that answers every call with 200 and the error code 500044.\<close>

definition rejecting_env :: "string env" where
  "rejecting_env =
     \<lparr>uuid_src = (\<lambda>n. ''trace-'' @ show_nat n),
      date_src = (\<lambda>n. ''Mon, 02 Nov 2026 04:27:00 GMT''),
      fetch_src = (\<lambda>n. Inr (response0 200 ''OK'' 500044 ''all credits used'' []))\<rparr>"

text \<open>
  A network that answers every call with 200 and the code 0, and a generator of
  identifiers that returns \<open>u\<close>.
\<close>

definition ok_env :: "string \<Rightarrow> string env" where
  "ok_env u =
     \<lparr>uuid_src = (\<lambda>n. u),
      date_src = (\<lambda>n. ''Mon, 02 Nov 2026 04:27:00 GMT''),
      fetch_src = (\<lambda>n. Inr (response0 200 ''OK'' 0 ''success'' ''payload''))\<rparr>"

text \<open>A storage service that refuses every upload with 403 and an empty body.\<close>

definition forbidden_env :: "string env" where
  "forbidden_env =
     \<lparr>uuid_src = (\<lambda>n. ''123e4567-e89b-42d3-a456-426614174000''),
      date_src = (\<lambda>n. ''Mon, 02 Nov 2026 04:27:00 GMT''),
      fetch_src = (\<lambda>n. Inr \<lparr>status = 403, statusText = ''Forbidden'',
                                 json = Inl (SyntaxError ''Unexpected end of JSON input''),
                                 text_body = Inr []\<rparr>)\<rparr>"

definition file0 :: File where
  "file0 = \<lparr>file_type = ''video/mp4'', file_bytes = ''0123456789''\<rparr>"

definition uploadToken0 :: UploadTokenResponse where
  "uploadToken0 = \<lparr>Ak = ''access-key'', Sk = ''secret-key'', Token = ''sts-token''\<rparr>"

definition lipSyncRequest0 :: LipSyncRequest where
  "lipSyncRequest0 =
     \<lparr>customer_video_path = Some ''upload/123e4567-e89b-42d3-a456-426614174000.mp4'',
      lip_sync_tts_content = Some ''Hello'',
      lip_sync_tts_speaker_id = ''auto'',
      model = ''v4'',
      customer_video_url = ''https://media.pixverse.ai/upload/a.mp4'',
      customer_video_duration = Num 26,
      customer_video_last_frame_url = ''https://media.pixverse.ai/upload/a.jpg'',
      credit_change = Num 0\<rparr>"

text \<open>A serializer that prints every request as the empty object.\<close>

definition stringify0 :: "'r \<Rightarrow> string" where
  "stringify0 r = ''{}''"

section \<open>The request executor: attempts and retries\<close>

lemma count_append [simp]: "count P (xs @ ys) = count P xs + count P ys"
  by (simp add: count_def)

lemma count_Nil [simp]: "count P [] = 0"
  by (simp add: count_def)

lemma count_Cons [simp]: "count P (x # xs) = (if P x then Suc (count P xs) else count P xs)"
  by (simp add: count_def)

lemma attempt_fails:
  assumes "\<not> succeeds (fetch_src env (count is_Fetch s))"
  shows "attempt env config endpoint options s =
           (Inl (attempt_error (fetch_src env (count is_Fetch s))),
            s @ attempt_events env config endpoint options (count (\<lambda>e. e = RandomUUID) s))"
  using assms
  by (auto simp: attempt_def randomUUID_def fetch_def succeeds_def attempt_events_def
           split: sum.splits)

lemma attempt_succeeds:
  assumes "fetch_src env (count is_Fetch s) = Inr response" "ok response"
    "json response = Inr data" "ErrCode data = 0"
  shows "attempt env config endpoint options s =
           (Inr data,
            s @ attempt_events env config endpoint options (count (\<lambda>e. e = RandomUUID) s))"
  using assms
  by (simp add: attempt_def randomUUID_def fetch_def attempt_events_def)

lemma count_attempt_events [simp]:
  "count is_Fetch (attempt_events env config endpoint options i) = 1"
  "count (\<lambda>e. e = RandomUUID) (attempt_events env config endpoint options i) = 1"
  by (simp_all add: attempt_events_def)

lemma count_attempts_trace [simp]:
  "count is_Fetch (attempts_trace env config endpoint options i n) = Suc n"
  "count (\<lambda>e. e = RandomUUID) (attempts_trace env config endpoint options i n) = Suc n"
  by (induction n arbitrary: i) simp_all

text \<open>
  With \<open>n\<close> retries and \<open>n + 1\<close> failing attempts ahead, the executor makes them all
  and ends with the error of the last one.
\<close>

lemma request_all_fail:
  assumes "\<forall>k\<le>n. \<not> succeeds (fetch_src env (count is_Fetch s + k))"
  shows "request env config endpoint options n s =
           (Inl (attempt_error (fetch_src env (count is_Fetch s + n))),
            s @ attempts_trace env config endpoint options (count (\<lambda>e. e = RandomUUID) s) n)"
  using assms
proof (induction n arbitrary: s)
  case 0
  then have "\<not> succeeds (fetch_src env (count is_Fetch s))" by simp
  then show ?case
    by (subst request.simps) (simp add: attempt_fails)
next
  case (Suc n)
  from Suc.prems have first: "\<not> succeeds (fetch_src env (count is_Fetch s))"
    by (metis add.right_neutral le0)
  let ?s' = "s @ attempt_events env config endpoint options (count (\<lambda>e. e = RandomUUID) s)
               @ [SetTimeout 1000]"
  have "\<forall>k\<le>n. \<not> succeeds (fetch_src env (count is_Fetch ?s' + k))"
  proof (intro allI impI)
    fix k assume "k \<le> n"
    then have "Suc k \<le> Suc n" by simp
    with Suc.prems have "\<not> succeeds (fetch_src env (count is_Fetch s + Suc k))" by blast
    then show "\<not> succeeds (fetch_src env (count is_Fetch ?s' + k))" by simp
  qed
  from Suc.IH [OF this] first show ?case
    by (subst request.simps) (simp add: attempt_fails)
qed

text \<open>
  With \<open>k\<close> failing attempts ahead, then a succeeding one, and at least \<open>k\<close> retries,
  the executor stops at the succeeding attempt and returns its decoded body.
\<close>

lemma request_first_success:
  assumes "\<forall>j<k. \<not> succeeds (fetch_src env (count is_Fetch s + j))"
    and "fetch_src env (count is_Fetch s + k) = Inr response" "ok response"
    "json response = Inr data" "ErrCode data = 0"
  shows "request env config endpoint options (k + m) s =
           (Inr data,
            s @ attempts_trace env config endpoint options (count (\<lambda>e. e = RandomUUID) s) k)"
  using assms
proof (induction k arbitrary: s)
  case 0
  then show ?case
    by (subst request.simps) (simp add: attempt_succeeds)
next
  case (Suc k)
  from Suc.prems(1) have first: "\<not> succeeds (fetch_src env (count is_Fetch s))"
    by (metis add.right_neutral zero_less_Suc)
  let ?s' = "s @ attempt_events env config endpoint options (count (\<lambda>e. e = RandomUUID) s)
               @ [SetTimeout 1000]"
  have rest: "\<forall>j<k. \<not> succeeds (fetch_src env (count is_Fetch ?s' + j))"
  proof (intro allI impI)
    fix j assume "j < k"
    then have "Suc j < Suc k" by simp
    with Suc.prems(1) have "\<not> succeeds (fetch_src env (count is_Fetch s + Suc j))" by blast
    then show "\<not> succeeds (fetch_src env (count is_Fetch ?s' + j))" by simp
  qed
  have hit: "fetch_src env (count is_Fetch ?s' + k) = Inr response"
    using Suc.prems(2) by simp
  from Suc.IH [OF rest hit Suc.prems(3,4,5)] first show ?case
    by (subst request.simps) (simp add: attempt_fails)
qed

lemma attempts_trace_3:
  "attempts_trace env config endpoint options i 3 =
     attempt_events env config endpoint options i @ [SetTimeout 1000]
     @ attempt_events env config endpoint options (i + 1) @ [SetTimeout 1000]
     @ attempt_events env config endpoint options (i + 2) @ [SetTimeout 1000]
     @ attempt_events env config endpoint options (i + 3)"
  by (simp add: numeral_3_eq_3)

text \<open>
  C3. When each of the four attempts of a call fails (the network is unreachable, the
  status is not 2xx, the body is no envelope, or the envelope carries a nonzero code), the
  executor with its default of three retries calls \<open>fetch\<close> exactly four times, sets a
  timer of 1000 ms between two consecutive attempts and nowhere else, and fails with the
  error of the fourth attempt, which for a rejection of \<open>fetch\<close> is the rejection itself.
\<close>

theorem request_retries_exhausted:
  assumes "\<forall>k<4. \<not> succeeds (fetch_src env (count is_Fetch s + k))"
  shows "request env config endpoint options default_retries s =
           (Inl (attempt_error (fetch_src env (count is_Fetch s + 3))),
            s @ attempt_events env config endpoint options (count (\<lambda>e. e = RandomUUID) s)
              @ [SetTimeout 1000]
              @ attempt_events env config endpoint options (count (\<lambda>e. e = RandomUUID) s + 1)
              @ [SetTimeout 1000]
              @ attempt_events env config endpoint options (count (\<lambda>e. e = RandomUUID) s + 2)
              @ [SetTimeout 1000]
              @ attempt_events env config endpoint options (count (\<lambda>e. e = RandomUUID) s + 3))
         \<and> count is_Fetch (snd (request env config endpoint options default_retries s))
             = count is_Fetch s + 4"
proof -
  from assms have "\<forall>k\<le>3. \<not> succeeds (fetch_src env (count is_Fetch s + k))" by simp
  from request_all_fail [OF this, of config endpoint options]
  have run: "request env config endpoint options default_retries s =
           (Inl (attempt_error (fetch_src env (count is_Fetch s + 3))),
            s @ attempts_trace env config endpoint options (count (\<lambda>e. e = RandomUUID) s) 3)"
    by (simp add: default_retries_def)
  show ?thesis
    unfolding run by (simp add: attempts_trace_3)
qed


theorem request_retries_exhausted_witness:
  "request flaky_env config0 ''/creative_platform/getUploadToken'' [(''method'', Str ''POST'')]
     default_retries []
   = (Inl (TypeError ''fetch failed''),
      attempt_events flaky_env config0 ''/creative_platform/getUploadToken''
        [(''method'', Str ''POST'')] 0
      @ [SetTimeout 1000]
      @ attempt_events flaky_env config0 ''/creative_platform/getUploadToken''
          [(''method'', Str ''POST'')] 1
      @ [SetTimeout 1000]
      @ attempt_events flaky_env config0 ''/creative_platform/getUploadToken''
          [(''method'', Str ''POST'')] 2
      @ [SetTimeout 1000]
      @ attempt_events flaky_env config0 ''/creative_platform/getUploadToken''
          [(''method'', Str ''POST'')] 3)"
proof -
  have fails: "\<forall>k<4. \<not> succeeds (fetch_src flaky_env (count is_Fetch [] + k))"
    by (simp add: flaky_env_def succeeds_def response0_def ok_def)
  have last: "attempt_error (fetch_src flaky_env 3) = TypeError ''fetch failed''"
    by (simp add: flaky_env_def)
  show ?thesis
    using request_retries_exhausted [OF fails, of config0 "''/creative_platform/getUploadToken''"
        "[(''method'', Str ''POST'')]"] last
    by (simp add: numeral_2_eq_2)
qed

text \<open>
  C4. When the attempts before the \<open>k\<close>-th fail and the \<open>k\<close>-th, for \<open>k\<close> from 1 to 4,
  has a 2xx status and an envelope with the error code zero, the executor calls \<open>fetch\<close>
  exactly \<open>k\<close> times and returns what the succeeding response carries: its decoded
  body, the envelope with its payload.
\<close>

theorem request_succeeds_on_attempt:
  assumes "1 \<le> k" "k \<le> 4"
    and "\<forall>j<k - 1. \<not> succeeds (fetch_src env (count is_Fetch s + j))"
    and "fetch_src env (count is_Fetch s + (k - 1)) = Inr response"
    and "ok response" "json response = Inr data" "ErrCode data = 0"
  shows "request env config endpoint options default_retries s =
           (Inr data,
            s @ attempts_trace env config endpoint options
                  (count (\<lambda>e. e = RandomUUID) s) (k - 1))
         \<and> count is_Fetch (snd (request env config endpoint options default_retries s))
             = count is_Fetch s + k
         \<and> Resp (projr (fst (request env config endpoint options default_retries s)))
             = Resp data"
proof -
  from assms(1,2) have "default_retries = (k - 1) + (4 - k)"
    by (simp add: default_retries_def)
  with request_first_success [OF assms(3-7), of config endpoint options "4 - k"]
  have run: "request env config endpoint options default_retries s =
           (Inr data,
            s @ attempts_trace env config endpoint options
                  (count (\<lambda>e. e = RandomUUID) s) (k - 1))"
    by simp
  from assms(1) show ?thesis
    unfolding run by simp
qed

theorem request_succeeds_on_attempt_witness:
  "request recovering_env config0 ''/creative_platform/getUploadToken''
     [(''method'', Str ''POST'')] default_retries []
   = (Inr \<lparr>ErrCode = 0, ErrMsg = ''success'', Resp = ''payload''\<rparr>,
      attempt_events recovering_env config0 ''/creative_platform/getUploadToken''
        [(''method'', Str ''POST'')] 0
      @ [SetTimeout 1000]
      @ attempt_events recovering_env config0 ''/creative_platform/getUploadToken''
          [(''method'', Str ''POST'')] 1
      @ [SetTimeout 1000]
      @ attempt_events recovering_env config0 ''/creative_platform/getUploadToken''
          [(''method'', Str ''POST'')] 2)
   \<and> count is_Fetch (snd (request recovering_env config0 ''/creative_platform/getUploadToken''
                             [(''method'', Str ''POST'')] default_retries [])) = 3"
proof -
  have fails: "\<forall>j<3 - 1. \<not> succeeds (fetch_src recovering_env (count is_Fetch [] + j))"
    by (simp add: recovering_env_def succeeds_def response0_def ok_def)
  have hit: "fetch_src recovering_env (count is_Fetch [] + (3 - 1))
               = Inr (response0 200 ''OK'' 0 ''success'' ''payload'')"
    by (simp add: recovering_env_def)
  have resp: "ok (response0 200 ''OK'' 0 ''success'' ''payload'')"
    "json (response0 200 ''OK'' 0 ''success'' ''payload'')
       = Inr \<lparr>ErrCode = 0, ErrMsg = ''success'', Resp = ''payload''\<rparr>"
    "ErrCode \<lparr>ErrCode = 0, ErrMsg = ''success'', Resp = ''payload''\<rparr> = 0"
    by (simp_all add: response0_def ok_def)
  show ?thesis
    using request_succeeds_on_attempt [OF _ _ fails hit resp,
        of config0 "''/creative_platform/getUploadToken''" "[(''method'', Str ''POST'')]"]
    by (simp add: numeral_2_eq_2)
qed

lemma sublist_in_message:
  "sublist msg (pre @ msg @ mid @ code @ post)"
  by (metis sublist_appendI)

lemma sublist_in_message':
  "sublist code (pre @ msg @ mid @ code @ post)"
proof -
  have "pre @ msg @ mid @ code @ post = (pre @ msg @ mid) @ code @ post" by simp
  then show ?thesis
    by (metis sublist_appendI)
qed

text \<open>
  C5. When each of the four attempts of a call has a 2xx status and an envelope with a
  nonzero error code, the executor returns no envelope: it calls \<open>fetch\<close> exactly four
  times, as for a transport failure, and fails with an error whose message is
  \<open>API error: <message> (Code: <code>)\<close> for the message and the code of the fourth
  envelope, so that it includes both.
\<close>

theorem request_application_error:
  assumes "\<forall>k<4. application_error (fetch_src env (count is_Fetch s + k))"
    and "fetch_src env (count is_Fetch s + 3) = Inr response" "json response = Inr data"
  shows "fst (request env config endpoint options default_retries s) =
           Inl (Error (''API error: '' @ ErrMsg data @ '' (Code: ''
                        @ show_int (ErrCode data) @ '')''))
         \<and> count is_Fetch (snd (request env config endpoint options default_retries s))
             = count is_Fetch s + 4
         \<and> sublist (ErrMsg data)
               (message (projl (fst (request env config endpoint options default_retries s))))
         \<and> sublist (show_int (ErrCode data))
               (message (projl (fst (request env config endpoint options default_retries s))))"
proof -
  have fails: "\<forall>k\<le>3. \<not> succeeds (fetch_src env (count is_Fetch s + k))"
  proof (intro allI impI)
    fix k :: nat assume "k \<le> 3"
    then have "k < 4" by simp
    with assms(1) have "application_error (fetch_src env (count is_Fetch s + k))" by blast
    then show "\<not> succeeds (fetch_src env (count is_Fetch s + k))"
      by (auto simp: application_error_def succeeds_def split: sum.splits)
  qed
  from assms(1) have "application_error (fetch_src env (count is_Fetch s + 3))" by simp
  with assms(2,3) have last: "attempt_error (fetch_src env (count is_Fetch s + 3)) =
      Error (''API error: '' @ ErrMsg data @ '' (Code: '' @ show_int (ErrCode data) @ '')'')"
    by (simp add: application_error_def)
  from request_all_fail [OF fails, of config endpoint options] last
  have run: "request env config endpoint options default_retries s =
           (Inl (Error (''API error: '' @ ErrMsg data @ '' (Code: ''
                         @ show_int (ErrCode data) @ '')'')),
            s @ attempts_trace env config endpoint options (count (\<lambda>e. e = RandomUUID) s) 3)"
    by (simp add: default_retries_def)
  have "sublist (ErrMsg data)
          (''API error: '' @ ErrMsg data @ '' (Code: '' @ show_int (ErrCode data) @ '')'')"
    by (rule sublist_in_message)
  moreover have "sublist (show_int (ErrCode data))
          (''API error: '' @ ErrMsg data @ '' (Code: '' @ show_int (ErrCode data) @ '')'')"
    by (rule sublist_in_message')
  ultimately show ?thesis
    unfolding run by simp
qed

theorem request_application_error_witness:
  "fst (request rejecting_env config0 ''/creative_platform/video/lip_sync''
          [(''method'', Str ''POST'')] default_retries [])
   = Inl (Error ''API error: all credits used (Code: 500044)'')
   \<and> count is_Fetch (snd (request rejecting_env config0 ''/creative_platform/video/lip_sync''
                             [(''method'', Str ''POST'')] default_retries [])) = 4"
proof -
  have fails: "\<forall>k<4. application_error (fetch_src rejecting_env (count is_Fetch [] + k))"
    by (simp add: rejecting_env_def application_error_def response0_def ok_def)
  have last: "fetch_src rejecting_env (count is_Fetch [] + 3)
                = Inr (response0 200 ''OK'' 500044 ''all credits used'' [])"
    "json (response0 200 ''OK'' 500044 ''all credits used'' [])
       = Inr \<lparr>ErrCode = 500044, ErrMsg = ''all credits used'', Resp = []\<rparr>"
    by (simp_all add: rejecting_env_def response0_def)
  show ?thesis
    using request_application_error [OF fails last,
        of config0 "''/creative_platform/video/lip_sync''" "[(''method'', Str ''POST'')]"]
    by (simp add: show_int_def show_nat.simps digit_def)
qed

section \<open>The convenience methods\<close>

lemma request_ok_env:
  "request (ok_env u) config endpoint options default_retries s =
     (Inr \<lparr>ErrCode = 0, ErrMsg = ''success'', Resp = ''payload''\<rparr>,
      s @ [RandomUUID,
           Fetch (baseUrl @ endpoint) (request_init options (request_headers config u))])"
proof -
  have none: "\<forall>j<0. \<not> succeeds (fetch_src (ok_env u) (count is_Fetch s + j))"
    by simp
  have hit: "fetch_src (ok_env u) (count is_Fetch s + 0)
               = Inr (response0 200 ''OK'' 0 ''success'' ''payload'')"
    by (simp add: ok_env_def)
  have resp: "ok (response0 200 ''OK'' 0 ''success'' ''payload'')"
    "json (response0 200 ''OK'' 0 ''success'' ''payload'')
       = Inr \<lparr>ErrCode = 0, ErrMsg = ''success'', Resp = ''payload''\<rparr>"
    "ErrCode \<lparr>ErrCode = 0, ErrMsg = ''success'', Resp = ''payload''\<rparr> = 0"
    by (simp_all add: response0_def ok_def)
  from request_first_success [OF none hit resp, of config endpoint options default_retries]
  show ?thesis
    by (simp add: attempt_events_def ok_env_def)
qed

text \<open>
  C6, as the specification states it, fails at two calls of \<open>createLipSync\<close> on a valid
  request whose duration is replaced. With the duration 0 the call does not throw: it
  returns a promise, which is rejected. With the duration \<open>NaN\<close>, which is not above
  zero, the call is not rejected at all: the request is sent, in one call of \<open>fetch\<close>.
\<close>

theorem validation_counterexample:
  "fst (async_call (createLipSync (ok_env ''trace-0'') config0 stringify0
                      (lipSyncRequest0\<lparr>customer_video_duration := Num 0\<rparr>)) [])
     = Promise (Inl (Error ''Invalid video duration: must be greater than 0''))
   \<and> fst (createLipSync (ok_env ''trace-0'') config0 stringify0
            (lipSyncRequest0\<lparr>customer_video_duration := NaN\<rparr>) [])
     = Inr \<lparr>ErrCode = 0, ErrMsg = ''success'', Resp = ''payload''\<rparr>
   \<and> count is_Fetch
         (snd (createLipSync (ok_env ''trace-0'') config0 stringify0
                 (lipSyncRequest0\<lparr>customer_video_duration := NaN\<rparr>) []))
     = 1"
  by (simp add: async_call_def createLipSync_def lipSyncRequest0_def not_str_def
        request_ok_env)

text \<open>
  C6, amended. A call of \<open>createLipSync\<close> returns a rejected promise, and has no effect
  before, so that no call of \<open>fetch\<close> is made, when the source video path or the text
  content is absent or empty, or when the video duration is zero or negative. A call of
  \<open>getLastVideoFrame\<close> does so for an absent or empty video path or a zero or negative
  duration, and a call of \<open>getVideoDetails\<close> for an absent or zero video id. The trace
  each of them returns is the trace it was given.
\<close>

theorem validation_rejects_locally:
  "(customer_video_path req = None \<or> customer_video_path req = Some []
      \<or> lip_sync_tts_content req = None \<or> lip_sync_tts_content req = Some []
      \<or> (\<exists>r. customer_video_duration req = Num r \<and> r \<le> 0)
      \<or> customer_video_duration req = NegInfinity
    \<longrightarrow> (\<exists>m. async_call (createLipSync env config stringify req) s
                 = (Promise (Inl (Error m)), s)))
   \<and> (video_path frameReq = None \<or> video_path frameReq = Some []
      \<or> (\<exists>r. duration frameReq = Num r \<and> r \<le> 0)
      \<or> duration frameReq = NegInfinity
    \<longrightarrow> (\<exists>m. async_call (getLastVideoFrame env config stringify' frameReq) s
                 = (Promise (Inl (Error m)), s)))
   \<and> (video_id detailsReq = None \<or> video_id detailsReq = Some (Num 0)
    \<longrightarrow> (\<exists>m. async_call (getVideoDetails env config stringify'' detailsReq) s
                 = (Promise (Inl (Error m)), s)))"
  by (auto simp: async_call_def createLipSync_def getLastVideoFrame_def getVideoDetails_def
                 not_str_def not_num_def)

theorem validation_rejects_locally_witness:
  "(\<exists>m. async_call (createLipSync (ok_env ''trace-0'') config0 stringify0
                      (lipSyncRequest0\<lparr>customer_video_duration := Num (- 3)\<rparr>)) []
          = (Promise (Inl (Error m)), []))
   \<and> (\<exists>m. async_call (createLipSync (ok_env ''trace-0'') config0 stringify0
                      (lipSyncRequest0\<lparr>lip_sync_tts_content := Some []\<rparr>)) []
          = (Promise (Inl (Error m)), []))
   \<and> (\<exists>m. async_call (getLastVideoFrame (ok_env ''trace-0'') config0 stringify0
                      \<lparr>video_path = Some [], duration = Num 26\<rparr>) []
          = (Promise (Inl (Error m)), []))
   \<and> (\<exists>m. async_call (getVideoDetails (ok_env ''trace-0'') config0 stringify0
                      \<lparr>video_id = Some (Num 0), platform = None\<rparr>) []
          = (Promise (Inl (Error m)), []))"
  using validation_rejects_locally
      [of "lipSyncRequest0\<lparr>customer_video_duration := Num (- 3)\<rparr>"
          "ok_env ''trace-0''" config0 stringify0 "[]"
          "\<lparr>video_path = Some [], duration = Num 26\<rparr>" stringify0
          "\<lparr>video_id = Some (Num 0), platform = None\<rparr>" stringify0]
    validation_rejects_locally
      [of "lipSyncRequest0\<lparr>lip_sync_tts_content := Some []\<rparr>"
          "ok_env ''trace-0''" config0 stringify0 "[]"
          "\<lparr>video_path = Some [], duration = Num 26\<rparr>" stringify0
          "\<lparr>video_id = Some (Num 0), platform = None\<rparr>" stringify0]
  by (simp add: lipSyncRequest0_def)

text \<open>
  C10. Whenever \<open>getUploadToken\<close> or \<open>uploadMedia\<close> succeeds, its result is the payload
  field of the envelope the executor returned; whenever \<open>createLipSync\<close>,
  \<open>getLastVideoFrame\<close> or \<open>getVideoDetails\<close> succeeds, its result is that envelope
  itself, with its error code, its message and its payload.
\<close>

theorem result_shapes:
  "(getUploadToken env config s = (Inr x, s') \<longrightarrow>
      (\<exists>envelope. request env config ''/creative_platform/getUploadToken''
                     [(''method'', Str ''POST'')] default_retries s = (Inr envelope, s')
                   \<and> x = Resp envelope))
   \<and> (uploadMedia env config stringify uploadRequest s = (Inr y, s') \<longrightarrow>
      (\<exists>envelope. request env config ''/creative_platform/media/upload''
                     [(''method'', Str ''POST''), (''body'', Str (stringify uploadRequest))]
                     default_retries s = (Inr envelope, s')
                   \<and> y = Resp envelope))
   \<and> (createLipSync env config stringify1 req s = (Inr envelope1, s') \<longrightarrow>
        request env config ''/creative_platform/video/lip_sync''
          [(''method'', Str ''POST''), (''body'', Str (stringify1 req)),
           (''headers'', Obj [(''Refresh'', ''credit'')])]
          default_retries s = (Inr envelope1, s'))
   \<and> (getLastVideoFrame env config stringify2 frameReq s = (Inr envelope2, s') \<longrightarrow>
        request env config ''/creative_platform/video/frame/last''
          [(''method'', Str ''POST''), (''body'', Str (stringify2 frameReq))]
          default_retries s = (Inr envelope2, s'))
   \<and> (getVideoDetails env config stringify3 detailsReq s = (Inr envelope3, s') \<longrightarrow>
        request env config ''/creative_platform/video/list/detail''
          [(''method'', Str ''POST''), (''body'', Str (stringify3 detailsReq))]
          default_retries s = (Inr envelope3, s'))"
proof (intro conjI impI)
  assume "getUploadToken env config s = (Inr x, s')"
  then show "\<exists>envelope. request env config ''/creative_platform/getUploadToken''
                     [(''method'', Str ''POST'')] default_retries s = (Inr envelope, s')
                   \<and> x = Resp envelope"
    by (auto simp: getUploadToken_def split: prod.splits sum.splits)
next
  assume "uploadMedia env config stringify uploadRequest s = (Inr y, s')"
  then show "\<exists>envelope. request env config ''/creative_platform/media/upload''
                     [(''method'', Str ''POST''), (''body'', Str (stringify uploadRequest))]
                     default_retries s = (Inr envelope, s')
                   \<and> y = Resp envelope"
    by (auto simp: uploadMedia_def split: prod.splits sum.splits)
next
  assume "createLipSync env config stringify1 req s = (Inr envelope1, s')"
  then show "request env config ''/creative_platform/video/lip_sync''
          [(''method'', Str ''POST''), (''body'', Str (stringify1 req)),
           (''headers'', Obj [(''Refresh'', ''credit'')])]
          default_retries s = (Inr envelope1, s')"
    by (simp add: createLipSync_def split: if_splits)
next
  assume "getLastVideoFrame env config stringify2 frameReq s = (Inr envelope2, s')"
  then show "request env config ''/creative_platform/video/frame/last''
          [(''method'', Str ''POST''), (''body'', Str (stringify2 frameReq))]
          default_retries s = (Inr envelope2, s')"
    by (simp add: getLastVideoFrame_def split: if_splits)
next
  assume "getVideoDetails env config stringify3 detailsReq s = (Inr envelope3, s')"
  then show "request env config ''/creative_platform/video/list/detail''
          [(''method'', Str ''POST''), (''body'', Str (stringify3 detailsReq))]
          default_retries s = (Inr envelope3, s')"
    by (simp add: getVideoDetails_def split: if_splits)
qed

lemma methods_ok_env:
  "getUploadToken (ok_env u) config s =
     (Inr ''payload'',
      s @ [RandomUUID,
           Fetch (baseUrl @ ''/creative_platform/getUploadToken'')
             (request_init [(''method'', Str ''POST'')] (request_headers config u))])"
  "uploadMedia (ok_env u) config stringify uploadRequest s =
     (Inr ''payload'',
      s @ [RandomUUID,
           Fetch (baseUrl @ ''/creative_platform/media/upload'')
             (request_init [(''method'', Str ''POST''), (''body'', Str (stringify uploadRequest))]
                (request_headers config u))])"
  "createLipSync (ok_env u) config stringify1 lipSyncRequest0 s =
     (Inr \<lparr>ErrCode = 0, ErrMsg = ''success'', Resp = ''payload''\<rparr>,
      s @ [RandomUUID,
           Fetch (baseUrl @ ''/creative_platform/video/lip_sync'')
             (request_init [(''method'', Str ''POST''), (''body'', Str (stringify1 lipSyncRequest0)),
                            (''headers'', Obj [(''Refresh'', ''credit'')])]
                (request_headers config u))])"
  "getLastVideoFrame (ok_env u) config stringify2 \<lparr>video_path = Some ''upload/a.mp4'', duration = Num 26\<rparr> s =
     (Inr \<lparr>ErrCode = 0, ErrMsg = ''success'', Resp = ''payload''\<rparr>,
      s @ [RandomUUID,
           Fetch (baseUrl @ ''/creative_platform/video/frame/last'')
             (request_init [(''method'', Str ''POST''),
                            (''body'', Str (stringify2 \<lparr>video_path = Some ''upload/a.mp4'', duration = Num 26\<rparr>))]
                (request_headers config u))])"
  "getVideoDetails (ok_env u) config stringify3 \<lparr>video_id = Some (Num 42), platform = None\<rparr> s =
     (Inr \<lparr>ErrCode = 0, ErrMsg = ''success'', Resp = ''payload''\<rparr>,
      s @ [RandomUUID,
           Fetch (baseUrl @ ''/creative_platform/video/list/detail'')
             (request_init [(''method'', Str ''POST''),
                            (''body'', Str (stringify3 \<lparr>video_id = Some (Num 42), platform = None\<rparr>))]
                (request_headers config u))])"
  by (simp_all add: getUploadToken_def uploadMedia_def createLipSync_def getLastVideoFrame_def
        getVideoDetails_def request_ok_env lipSyncRequest0_def not_str_def not_num_def)

theorem result_shapes_witness:
  "(\<exists>envelope. request (ok_env ''trace-0'') config0 ''/creative_platform/getUploadToken''
                  [(''method'', Str ''POST'')] default_retries []
                = (Inr envelope,
                   [RandomUUID,
                    Fetch (baseUrl @ ''/creative_platform/getUploadToken'')
                      (request_init [(''method'', Str ''POST'')]
                         (request_headers config0 ''trace-0''))])
                \<and> ''payload'' = Resp envelope)
   \<and> request (ok_env ''trace-0'') config0 ''/creative_platform/video/list/detail''
          [(''method'', Str ''POST''), (''body'', Str ''{}'')] default_retries []
       = (Inr \<lparr>ErrCode = 0, ErrMsg = ''success'', Resp = ''payload''\<rparr>,
          [RandomUUID,
           Fetch (baseUrl @ ''/creative_platform/video/list/detail'')
             (request_init [(''method'', Str ''POST''), (''body'', Str ''{}'')]
                (request_headers config0 ''trace-0''))])"
  using result_shapes [of "ok_env ''trace-0''" config0 "[]" "''payload''"
      "[RandomUUID,
        Fetch (baseUrl @ ''/creative_platform/getUploadToken'')
          (request_init [(''method'', Str ''POST'')] (request_headers config0 ''trace-0''))]"]
    result_shapes [of "ok_env ''trace-0''" config0 "[]" _
      "[RandomUUID,
        Fetch (baseUrl @ ''/creative_platform/video/list/detail'')
          (request_init [(''method'', Str ''POST''), (''body'', Str ''{}'')]
             (request_headers config0 ''trace-0''))]" _ _ _ _ _ _ _ _ _
      "\<lambda>r. ''{}''" "\<lparr>video_id = Some (Num 42), platform = None\<rparr>"
      "\<lparr>ErrCode = 0, ErrMsg = ''success'', Resp = ''payload''\<rparr>"]
  by (simp add: methods_ok_env)

section \<open>The headers of a request\<close>

lemma map_of_set_prop: "map_of (set_prop k v ob) = (map_of ob)(k \<mapsto> v)"
  by (induction ob) auto

lemma map_of_spread: "map_of (spread target src) = map_of target ++ map_of (rev src)"
  unfolding spread_def
proof (induction src arbitrary: target)
  case Nil
  show ?case by simp
next
  case (Cons p src)
  obtain k v where p: "p = (k, v)" by (cases p)
  have "map_of (fold (\<lambda>(k, v). set_prop k v) (p # src) target)
          = map_of (set_prop k v target) ++ map_of (rev src)"
    using Cons.IH [of "set_prop k v target"] by (simp add: p)
  also have "\<dots> = map_of target ++ map_of (rev (p # src))"
    by (simp add: p map_of_set_prop)
  finally show ?case .
qed

text \<open>
  The headers of the client configuration are merged over the defaults, and a header of
  the configuration wins over a default of the same name.
\<close>

lemma config_headers_win:
  assumes "headers config = Some h" "map_of (rev h) k = Some v"
  shows "get_prop (request_headers config uuid) k = Some v"
  using assms by (simp add: get_prop_def request_headers_def map_of_spread)

text \<open>
  The header object of the call of \<open>fetch\<close> is the one built from the defaults and the
  configuration, whatever the options of the call hold under \<open>headers\<close>: in the
  argument \<open>{...options, headers, ...}\<close> the later key replaces the spread one.
\<close>

lemma request_init_headers:
  "get_prop (request_init options hdrs) ''headers'' = Some (Obj hdrs)"
  by (simp add: get_prop_def request_init_def map_of_spread)

text \<open>
  C2, at a call of \<open>createLipSync\<close> with a valid request on a client without extra
  headers: the call passes \<open>headers: {Refresh: 'credit'}\<close> to the executor, which calls
  \<open>fetch\<close> once, and the header object of that call has no \<open>Refresh\<close> entry. The
  per-call header does not win over the defaults; it is not sent.
\<close>

theorem createLipSync_Refresh_not_sent:
  "map (\<lambda>e. get_prop (sent_headers e) ''Refresh'')
     (filter is_Fetch
        (snd (createLipSync (ok_env ''trace-0'') config0 (\<lambda>r. ''{}'') lipSyncRequest0 [])))
   = [None]"
proof -
  have "get_prop (request_headers config0 ''trace-0'') ''Refresh'' = None"
    by (simp add: get_prop_def request_headers_def spread_def config0_def)
  then show ?thesis
    by (simp add: methods_ok_env request_init_headers)
qed

section \<open>The signed upload\<close>

text \<open>
  The effects of one upload: one identifier drawn, one reading of the clock, and one
  call of \<open>fetch\<close>, with the method \<open>PUT\<close>.
\<close>

lemma uploadToOSS_trace:
  "snd (uploadToOSS env file fileName uploadToken s) =
     s @ [RandomUUID,
          ConsoleLog [''Uploading file to OSS...''],
          DateNow,
          ConsoleLog [''Signature:'',
            hmac_sha1_base64 (Sk uploadToken)
              (stringToSign ''PUT'' (file_type file)
                 (date_src env (count (\<lambda>e. e = DateNow) s))
                 (ossHeaders (date_src env (count (\<lambda>e. e = DateNow) s)) uploadToken)
                 (''upload/'' @ uuid_src env (count (\<lambda>e. e = RandomUUID) s)
                    @ fileExt fileName)),
            file_type file],
          Fetch (''https://pixverse-fe-upload.oss-accelerate.aliyuncs.com/'' @ ''upload/''
                   @ uuid_src env (count (\<lambda>e. e = RandomUUID) s) @ fileExt fileName)
            [(''method'', Str ''PUT''),
             (''headers'', Obj (upload_headers file
                (date_src env (count (\<lambda>e. e = DateNow) s)) uploadToken
                (hmac_sha1_base64 (Sk uploadToken)
                   (stringToSign ''PUT'' (file_type file)
                      (date_src env (count (\<lambda>e. e = DateNow) s))
                      (ossHeaders (date_src env (count (\<lambda>e. e = DateNow) s)) uploadToken)
                      (''upload/'' @ uuid_src env (count (\<lambda>e. e = RandomUUID) s)
                         @ fileExt fileName))))),
             (''body'', Blob file),
             (''credentials'', Str ''include''),
             (''mode'', Str ''cors'')]]"
  by (simp add: uploadToOSS_def randomUUID_def toUTCString_def fetch_def Let_def
           split: sum.splits)

lemma uploadToOSS_result:
  "fst (uploadToOSS env file fileName uploadToken s) =
     (case fetch_src env (count is_Fetch s) of
        Inl e \<Rightarrow> Inl e
      | Inr response \<Rightarrow>
          if \<not> ok response
          then (case text_body response of
                  Inl e \<Rightarrow> Inl e
                | Inr errorText \<Rightarrow>
                    Inl (Error (''Failed to upload file ('' @ show_nat (status response)
                                 @ ''): ''
                                 @ (if errorText \<noteq> [] then errorText
                                    else statusText response))))
          else Inr \<lparr>name = uuid_src env (count (\<lambda>e. e = RandomUUID) s) @ fileExt fileName,
                    path = ''upload/'' @ uuid_src env (count (\<lambda>e. e = RandomUUID) s)
                             @ fileExt fileName,
                    type = (if file_type file = ''video/mp4'' then 1 else 2)\<rparr>)"
  by (simp add: uploadToOSS_def randomUUID_def toUTCString_def fetch_def Let_def
           split: sum.splits)

lemma signatures_upload:
  "signatures (drop (length s) (snd (uploadToOSS env file fileName uploadToken s))) =
     [hmac_sha1_base64 (Sk uploadToken)
        (stringToSign ''PUT'' (file_type file)
           (date_src env (count (\<lambda>e. e = DateNow) s))
           (ossHeaders (date_src env (count (\<lambda>e. e = DateNow) s)) uploadToken)
           (''upload/'' @ uuid_src env (count (\<lambda>e. e = RandomUUID) s) @ fileExt fileName))]"
  by (simp add: uploadToOSS_trace signatures_def List.map_filter_simps)

text \<open>The canonical string of the upload, written out.\<close>

lemma stringToSign_ossHeaders:
  "stringToSign method contentType date (ossHeaders date uploadToken) p =
     method @ nl @ nl @ contentType @ nl @ date @ nl
     @ ''x-oss-date:'' @ date @ nl
     @ ''x-oss-forbid-overwrite:true'' @ nl
     @ ''x-oss-security-token:'' @ Token uploadToken @ nl
     @ ''x-oss-user-agent:aliyun-sdk-js/6.22.0 Firefox 136.0 on OS X 10.15'' @ nl
     @ ''/pixverse-fe-upload/'' @ p"
  by (simp add: stringToSign_def ossHeaders_def canonicalizedOSSHeaders_def sort_by_def
        toLowerCase_def toLowerCase_char_def canonicalizedResource_def)

text \<open>
  C1, as the specification states it, fails: for an upload of a \<open>video/mp4\<close> file the
  canonical string of the code is not the string with the three header lines of the
  security token, the forbid-overwrite flag and the client identifier.
\<close>

theorem stringToSign_spec_counterexample:
  "stringToSign ''PUT'' (file_type file0) ''Mon, 02 Nov 2026 04:27:00 GMT''
     (ossHeaders ''Mon, 02 Nov 2026 04:27:00 GMT'' uploadToken0)
     ''upload/123e4567-e89b-42d3-a456-426614174000.mp4''
   \<noteq> stringToSign_spec ''PUT'' (file_type file0) ''Mon, 02 Nov 2026 04:27:00 GMT''
       uploadToken0 ''upload/123e4567-e89b-42d3-a456-426614174000.mp4''"
  by (simp add: stringToSign_ossHeaders stringToSign_spec_def file0_def uploadToken0_def nl_def)

text \<open>
  C1, amended. For every content type, date string and credential, the string that
  \<open>uploadToOSS\<close> signs is the method \<open>PUT\<close>, an empty line for the omitted Content-MD5,
  the content type of the payload, the date string, and the header block followed at
  once by the resource path \<open>/pixverse-fe-upload/upload/<name>\<close>, joined with newlines.
  The header block has four lines \<open>key:value\<close> in lower case, sorted by key and each
  ended by a newline: the date header \<open>x-oss-date\<close> with the same date string, the
  forbid-overwrite flag, the security token and the client identifier.
\<close>

theorem stringToSign_canonical:
  "signatures (drop (length s) (snd (uploadToOSS env file fileName uploadToken s))) =
     [hmac_sha1_base64 (Sk uploadToken)
        (stringToSign ''PUT'' (file_type file)
           (date_src env (count (\<lambda>e. e = DateNow) s))
           (ossHeaders (date_src env (count (\<lambda>e. e = DateNow) s)) uploadToken)
           (''upload/'' @ uuid_src env (count (\<lambda>e. e = RandomUUID) s) @ fileExt fileName))]
   \<and> stringToSign ''PUT'' contentType date (ossHeaders date uploadToken) p =
       ''PUT'' @ nl @ [] @ nl @ contentType @ nl @ date @ nl
       @ ''x-oss-date:'' @ date @ nl
       @ ''x-oss-forbid-overwrite:true'' @ nl
       @ ''x-oss-security-token:'' @ Token uploadToken @ nl
       @ ''x-oss-user-agent:aliyun-sdk-js/6.22.0 Firefox 136.0 on OS X 10.15'' @ nl
       @ ''/pixverse-fe-upload/'' @ p"
  by (simp add: signatures_upload stringToSign_ossHeaders)

text \<open>
  C7. Every invocation of \<open>uploadToOSS\<close> calls \<open>fetch\<close> exactly once, with the method
  \<open>PUT\<close>, and sets no timer. It draws one new identifier and reads the clock once, and
  the object name, the date and the signature of the request are computed from these
  two values, so that the next invocation computes them anew. When the response is not
  2xx, the result is an error whose message holds the status code and the text of the
  response body, or the status text when the body is empty.
\<close>

theorem uploadToOSS_single_put:
  "snd (uploadToOSS env file fileName uploadToken s) =
     s @ [RandomUUID,
          ConsoleLog [''Uploading file to OSS...''],
          DateNow,
          ConsoleLog [''Signature:'',
            hmac_sha1_base64 (Sk uploadToken)
              (stringToSign ''PUT'' (file_type file)
                 (date_src env (count (\<lambda>e. e = DateNow) s))
                 (ossHeaders (date_src env (count (\<lambda>e. e = DateNow) s)) uploadToken)
                 (''upload/'' @ uuid_src env (count (\<lambda>e. e = RandomUUID) s)
                    @ fileExt fileName)),
            file_type file],
          Fetch (''https://pixverse-fe-upload.oss-accelerate.aliyuncs.com/'' @ ''upload/''
                   @ uuid_src env (count (\<lambda>e. e = RandomUUID) s) @ fileExt fileName)
            [(''method'', Str ''PUT''),
             (''headers'', Obj (upload_headers file
                (date_src env (count (\<lambda>e. e = DateNow) s)) uploadToken
                (hmac_sha1_base64 (Sk uploadToken)
                   (stringToSign ''PUT'' (file_type file)
                      (date_src env (count (\<lambda>e. e = DateNow) s))
                      (ossHeaders (date_src env (count (\<lambda>e. e = DateNow) s)) uploadToken)
                      (''upload/'' @ uuid_src env (count (\<lambda>e. e = RandomUUID) s)
                         @ fileExt fileName))))),
             (''body'', Blob file),
             (''credentials'', Str ''include''),
             (''mode'', Str ''cors'')]]
   \<and> count is_Fetch (snd (uploadToOSS env file fileName uploadToken s)) = count is_Fetch s + 1
   \<and> count (\<lambda>e. e = RandomUUID) (snd (uploadToOSS env file fileName uploadToken s))
       = count (\<lambda>e. e = RandomUUID) s + 1
   \<and> count (\<lambda>e. e = DateNow) (snd (uploadToOSS env file fileName uploadToken s))
       = count (\<lambda>e. e = DateNow) s + 1
   \<and> (fetch_src env (count is_Fetch s) = Inr response \<and> \<not> ok response
        \<and> text_body response = Inr errorText \<longrightarrow>
      fst (uploadToOSS env file fileName uploadToken s) =
        Inl (Error (''Failed to upload file ('' @ show_nat (status response) @ ''): ''
                     @ (if errorText = [] then statusText response else errorText))))"
  by (simp add: uploadToOSS_trace uploadToOSS_result)

theorem uploadToOSS_single_put_witness:
  "fst (uploadToOSS forbidden_env file0 ''a.mp4'' uploadToken0 [])
     = Inl (Error ''Failed to upload file (403): Forbidden'')
   \<and> count is_Fetch (snd (uploadToOSS forbidden_env file0 ''a.mp4'' uploadToken0 [])) = 1"
proof -
  have non2xx: "fetch_src forbidden_env (count is_Fetch []) =
                  Inr \<lparr>status = 403, statusText = ''Forbidden'',
                       json = Inl (SyntaxError ''Unexpected end of JSON input''),
                       text_body = Inr []\<rparr>"
    by (simp add: forbidden_env_def)
  show ?thesis
    using uploadToOSS_single_put [of forbidden_env file0 "''a.mp4''" uploadToken0 "[]"
        "\<lparr>status = 403, statusText = ''Forbidden'',
          json = Inl (SyntaxError ''Unexpected end of JSON input''),
          text_body = Inr []\<rparr>" "[]"] non2xx
    by (simp add: ok_def show_nat.simps digit_def)
qed

lemma split_str_not_Nil [simp]: "split_str sep xs \<noteq> []"
  by (induction xs) simp_all

lemma split_str_no_sep: "sep \<notin> set xs \<Longrightarrow> split_str sep xs = [xs]"
  by (induction xs) auto

lemma split_str_sep_tl: "sep \<in> set xs \<Longrightarrow> tl (split_str sep xs) \<noteq> []"
  by (induction xs) auto

text \<open>The last piece of a split is the text after the last separator.\<close>

lemma last_split_str:
  assumes "sep \<notin> set ext"
  shows "last (split_str sep (pre @ sep # ext)) = ext"
proof (induction pre)
  case Nil
  from assms show ?case by (simp add: split_str_no_sep)
next
  case (Cons c pre)
  let ?r = "split_str sep (pre @ sep # ext)"
  have tl: "tl ?r \<noteq> []" by (rule split_str_sep_tl) simp
  then have "last (tl ?r) = last ?r"
    by (metis last_tl)
  with tl Cons.IH show ?case by simp
qed

lemma fileExt_cases:
  "CHR ''.'' \<notin> set fileName \<Longrightarrow> fileExt fileName = []"
  "CHR ''.'' \<notin> set ext \<Longrightarrow> fileExt (pre @ ''.'' @ ext) = ''.'' @ ext"
  using last_split_str [of "CHR ''.''" ext pre] by (simp_all add: fileExt_def)

text \<open>
  C8. When the upload succeeds, the result holds the name, the path and the type: the
  name is the identifier drawn in this invocation followed by the extension of the file
  name, the path is \<open>upload/\<close> followed by the name, and the type is 1 for the content
  type \<open>video/mp4\<close> and 2 for every other one. The extension is empty for a file name
  without a dot, and otherwise the dot and the text after the last dot of the file name.
\<close>

theorem uploadToOSS_success_record:
  assumes "fetch_src env (count is_Fetch s) = Inr response" "ok response"
  shows "fst (uploadToOSS env file fileName uploadToken s) =
           Inr \<lparr>name = uuid_src env (count (\<lambda>e. e = RandomUUID) s) @ fileExt fileName,
                path = ''upload/'' @ uuid_src env (count (\<lambda>e. e = RandomUUID) s)
                         @ fileExt fileName,
                type = (if file_type file = ''video/mp4'' then 1 else 2)\<rparr>
         \<and> (CHR ''.'' \<notin> set fileName \<longrightarrow> fileExt fileName = [])
         \<and> (\<forall>pre ext. fileName = pre @ ''.'' @ ext \<and> CHR ''.'' \<notin> set ext
                \<longrightarrow> fileExt fileName = ''.'' @ ext)"
proof (intro conjI allI impI)
  from assms show "fst (uploadToOSS env file fileName uploadToken s) =
           Inr \<lparr>name = uuid_src env (count (\<lambda>e. e = RandomUUID) s) @ fileExt fileName,
                path = ''upload/'' @ uuid_src env (count (\<lambda>e. e = RandomUUID) s)
                         @ fileExt fileName,
                type = (if file_type file = ''video/mp4'' then 1 else 2)\<rparr>"
    by (simp add: uploadToOSS_result)
next
  assume "CHR ''.'' \<notin> set fileName"
  then show "fileExt fileName = []" by (rule fileExt_cases)
next
  fix pre ext
  assume "fileName = pre @ ''.'' @ ext \<and> CHR ''.'' \<notin> set ext"
  then show "fileExt fileName = ''.'' @ ext"
    using fileExt_cases(2) [of ext pre] by simp
qed

theorem uploadToOSS_success_record_witness:
  "fst (uploadToOSS (ok_env ''123e4567-e89b-42d3-a456-426614174000'') file0 ''clip.MOV''
          uploadToken0 [])
     = Inr \<lparr>name = ''123e4567-e89b-42d3-a456-426614174000.MOV'',
            path = ''upload/123e4567-e89b-42d3-a456-426614174000.MOV'',
            type = 1\<rparr>
   \<and> fst (uploadToOSS (ok_env ''123e4567-e89b-42d3-a456-426614174000'')
            \<lparr>file_type = ''audio/mpeg'', file_bytes = ''0123456789''\<rparr> ''README''
            uploadToken0 [])
     = Inr \<lparr>name = ''123e4567-e89b-42d3-a456-426614174000'',
            path = ''upload/123e4567-e89b-42d3-a456-426614174000'',
            type = 2\<rparr>"
proof -
  let ?env = "ok_env ''123e4567-e89b-42d3-a456-426614174000''"
  have resp: "fetch_src ?env (count is_Fetch []) = Inr (response0 200 ''OK'' 0 ''success'' ''payload'')"
    "ok (response0 200 ''OK'' 0 ''success'' ''payload'')"
    by (simp_all add: ok_env_def response0_def ok_def)
  have uuid: "uuid_src ?env (count (\<lambda>e. e = RandomUUID) [])
                = ''123e4567-e89b-42d3-a456-426614174000''"
    by (simp add: ok_env_def)
  have video: "file_type file0 = ''video/mp4''"
    by (simp add: file0_def)
  note clip = uploadToOSS_success_record [OF resp, of file0 "''clip.MOV''" uploadToken0]
  from clip have "''clip.MOV'' = ''clip'' @ ''.'' @ ''MOV'' \<and> CHR ''.'' \<notin> set ''MOV''
                    \<longrightarrow> fileExt ''clip.MOV'' = ''.'' @ ''MOV''"
    by blast
  then have ext_clip: "fileExt ''clip.MOV'' = ''.MOV''" by simp
  note readme = uploadToOSS_success_record [OF resp,
      of "\<lparr>file_type = ''audio/mpeg'', file_bytes = ''0123456789''\<rparr>" "''README''" uploadToken0]
  from readme have ext_readme: "fileExt ''README'' = []" by simp
  from clip readme show ?thesis
    unfolding uuid video ext_clip ext_readme by simp
qed

text \<open>
  The model of the library function on a test vector of RFC 2202, and on the two
  canonical strings used below.
\<close>

lemma hmac_sha1_base64_rfc2202:
  "hmac_sha1_base64 ''Jefe'' ''what do ya want for nothing?'' = ''7/zfauXrL6LSdBbV8YTfnCWafHk=''"
  by code_simp

lemma signature_first_upload:
  "signatures (snd (uploadToOSS (ok_env ''123e4567-e89b-42d3-a456-426614174000'') file0
                      ''a.mp4'' uploadToken0 []))
   = [''njjYDejgHGmtXmZzQsvmyWR37ec='']"
  by code_simp

lemma signature_second_upload:
  "signatures (snd (uploadToOSS (ok_env ''9b2f7c1e-5d3a-4e8f-b6c4-0a1d2e3f4a5b'') file0
                      ''a.mp4'' uploadToken0 []))
   = [''I5YrsIzW2a/lY9LVC4Pg4f+tMsQ='']"
  by code_simp

text \<open>
  C9, as the specification states it, fails: two uploads of the same file with the same
  method, content type, date string, security token and secret key, which drew different
  object names, carry different signatures.
\<close>

theorem signature_counterexample:
  "signatures (snd (uploadToOSS (ok_env ''123e4567-e89b-42d3-a456-426614174000'') file0
                      ''a.mp4'' uploadToken0 []))
   \<noteq> signatures (snd (uploadToOSS (ok_env ''9b2f7c1e-5d3a-4e8f-b6c4-0a1d2e3f4a5b'') file0
                        ''a.mp4'' uploadToken0 []))"
  unfolding signature_first_upload signature_second_upload by simp

text \<open>
  C9, amended. The signature of an upload is a function of the method, the content type,
  the date string, the security token, the secret key and the path of the object, which
  holds the generated name: two uploads that agree on these carry the same signature,
  whatever the rest of their inputs and of the outside world is.
\<close>

theorem signature_determined:
  assumes "file_type file1 = file_type file2"
    and "date_src env1 (count (\<lambda>e. e = DateNow) s1) = date_src env2 (count (\<lambda>e. e = DateNow) s2)"
    and "Token uploadToken1 = Token uploadToken2"
    and "Sk uploadToken1 = Sk uploadToken2"
    and "uuid_src env1 (count (\<lambda>e. e = RandomUUID) s1) @ fileExt fileName1
           = uuid_src env2 (count (\<lambda>e. e = RandomUUID) s2) @ fileExt fileName2"
  shows "signatures (drop (length s1) (snd (uploadToOSS env1 file1 fileName1 uploadToken1 s1)))
           = signatures (drop (length s2) (snd (uploadToOSS env2 file2 fileName2 uploadToken2 s2)))"
  using assms by (simp add: signatures_upload stringToSign_ossHeaders)

theorem signature_determined_witness:
  "signatures (drop (length ([] :: event list))
     (snd (uploadToOSS (ok_env ''123e4567-e89b-42d3-a456-426614174000'') file0 ''a.mp4''
             uploadToken0 [])))
   = signatures (drop (length [SetTimeout 1000])
       (snd (uploadToOSS forbidden_env
               \<lparr>file_type = ''video/mp4'', file_bytes = ''9876543210''\<rparr> ''holiday.2026.mp4''
               (uploadToken0\<lparr>Ak := ''another-access-key''\<rparr>) [SetTimeout 1000])))"
proof -
  have ext: "fileExt ''a.mp4'' = ''.mp4''" "fileExt ''holiday.2026.mp4'' = ''.mp4''"
    by (simp_all add: fileExt_def)
  show ?thesis
    by (rule signature_determined)
       (simp_all add: ext file0_def ok_env_def forbidden_env_def uploadToken0_def)
qed

end
